theory Spec2Isabelle
  imports Main
begin

section \<open>Values of a parsed JSON response\<close>

text \<open>
  Both handlers of \<^verbatim>\<open>static/script.js\<close> read fields of the value that
  \<^verbatim>\<open>response.json()\<close> resolves to. JavaScript is untyped, so the value is any
  JSON value, and the script's property reads, truthiness tests, string conversions and
  method calls are modelled on all of them. Numbers are the integers that a double
  holds exactly (a JSON number with a fraction, or of magnitude beyond \<open>2^53\<close>, is
  outside the model); a string is a list of characters; an object is the association
  list of its own properties. The value
  \<^verbatim>\<open>undefined\<close> is not a JSON value: a property read returns a
  \<open>json option\<close>, with \<open>None\<close> for \<^verbatim>\<open>undefined\<close>.
\<close>

datatype json =
    JNull
  | JBool bool
  | JNum int
  | JStr string
  | JArr "json list"
  | JObj "(string \<times> json) list"

text \<open>
  What the script can throw or catch. A \<open>Failure\<close> is a rejection of
  \<^verbatim>\<open>fetch\<close> or of \<^verbatim>\<open>response.json()\<close>, with its message;
  \<open>Error\<close> is the object made by \<^verbatim>\<open>new Error(msg)\<close>; a
  \<open>TypeError\<close> is raised by the engine, for one of the causes below.
\<close>

datatype cause =
    ReadUndefined string  \<comment> \<open>a property, named, read from \<^verbatim>\<open>undefined\<close>\<close>
  | ReadNull string  \<comment> \<open>a property, named, read from \<^verbatim>\<open>null\<close>\<close>
  | NotAFunction string  \<comment> \<open>the callee, as written, is not callable\<close>
  | NotPrimitive  \<comment> \<open>an object has no callable \<^verbatim>\<open>toString\<close> or \<^verbatim>\<open>valueOf\<close>\<close>

datatype js_error =
    Failure string
  | Error string
  | TypeError cause

text \<open>
  Two things are the engine's and not the script's: the wording of a TypeError's
  message, and the conversion of a string to a number, of which the script needs only
  whether the number is greater than zero. Both are parameters of the model.
\<close>

record engine =
  type_error_message :: "cause \<Rightarrow> string"
  positive_numeric :: "string \<Rightarrow> bool"

definition message :: "engine \<Rightarrow> js_error \<Rightarrow> string" where
  "message eng e =
     (case e of
        Failure m \<Rightarrow> m
      | Error m \<Rightarrow> m
      | TypeError c \<Rightarrow> type_error_message eng c)"

text \<open>Sequencing of computations that may throw: the first exception wins.\<close>

definition bind_result :: "'e + 'a \<Rightarrow> ('a \<Rightarrow> 'e + 'b) \<Rightarrow> 'e + 'b" where
  "bind_result r f = (case r of Inl e \<Rightarrow> Inl e | Inr v \<Rightarrow> f v)"

fun collect :: "('e + 'a) list \<Rightarrow> 'e + 'a list" where
  "collect [] = Inr []"
| "collect (Inl e # rs) = Inl e"
| "collect (Inr x # rs) = (case collect rs of Inl e \<Rightarrow> Inl e | Inr xs \<Rightarrow> Inr (x # xs))"

subsection \<open>Property reads\<close>

text \<open>
  \<^verbatim>\<open>v.k\<close> for the property names the script reads (\<^verbatim>\<open>error\<close>,
  \<^verbatim>\<open>filename\<close>, \<^verbatim>\<open>statistics\<close>, \<^verbatim>\<open>timestamp\<close>,
  \<^verbatim>\<open>recommendations\<close>, \<^verbatim>\<open>length\<close>, ...): none of them is
  inherited from a prototype except \<^verbatim>\<open>length\<close> of a string or an array, and
  none is an array index. Reading from \<^verbatim>\<open>null\<close> throws; a boolean or a
  number has none of them. The method \<^verbatim>\<open>map\<close> is modelled apart, by
  \<open>call_map\<close>.
\<close>

fun get_prop :: "json \<Rightarrow> string \<Rightarrow> cause + json option" where
  "get_prop JNull k = Inl (ReadNull k)"
| "get_prop (JBool b) k = Inr None"
| "get_prop (JNum n) k = Inr None"
| "get_prop (JStr s) k = Inr (if k = ''length'' then Some (JNum (int (length s))) else None)"
| "get_prop (JArr xs) k = Inr (if k = ''length'' then Some (JNum (int (length xs))) else None)"
| "get_prop (JObj kvs) k = Inr (map_of kvs k)"

fun get_prop_opt :: "json option \<Rightarrow> string \<Rightarrow> cause + json option" where
  "get_prop_opt None k = Inl (ReadUndefined k)"
| "get_prop_opt (Some v) k = get_prop v k"

text \<open>\<^verbatim>\<open>data.a.b\<close>\<close>

definition member2 :: "json \<Rightarrow> string \<Rightarrow> string \<Rightarrow> cause + json option" where
  "member2 data a b = bind_result (get_prop data a) (\<lambda>v. get_prop_opt v b)"

subsection \<open>Truthiness\<close>

fun truthy :: "json option \<Rightarrow> bool" where
  "truthy None = False"
| "truthy (Some JNull) = False"
| "truthy (Some (JBool b)) = b"
| "truthy (Some (JNum n)) = (n \<noteq> 0)"
| "truthy (Some (JStr s)) = (s \<noteq> [])"
| "truthy (Some (JArr xs)) = True"
| "truthy (Some (JObj kvs)) = True"

subsection \<open>Conversion to a string\<close>

definition digit :: "nat \<Rightarrow> char" where
  "digit d = ''0123456789'' ! d"

fun digits :: "nat \<Rightarrow> string" where
  "digits n = (if n < 10 then [digit n] else digits (n div 10) @ [digit (n mod 10)])"

declare digits.simps [simp del]

definition number_to_string :: "int \<Rightarrow> string" where
  "number_to_string n = (if n < 0 then ''-'' @ digits (nat (- n)) else digits (nat n))"

fun join :: "string \<Rightarrow> string list \<Rightarrow> string" where
  "join sep [] = []"
| "join sep [s] = s"
| "join sep (s # t # ss) = s @ sep @ join sep (t # ss)"

text \<open>
  \<^verbatim>\<open>ToString\<close>, as a template literal and \<^verbatim>\<open>new Error\<close> apply it.
  An array is joined with commas, a \<^verbatim>\<open>null\<close> element giving the empty string.
  A parsed object inherits \<^verbatim>\<open>Object.prototype.toString\<close> unless it has a
  property of its own named \<^verbatim>\<open>toString\<close>, which is a JSON value and so not
  callable: then the conversion throws.
\<close>

fun to_string :: "json \<Rightarrow> cause + string" where
  "to_string JNull = Inr ''null''"
| "to_string (JBool b) = Inr (if b then ''true'' else ''false'')"
| "to_string (JNum n) = Inr (number_to_string n)"
| "to_string (JStr s) = Inr s"
| "to_string (JArr xs) =
     (case collect (map (\<lambda>x. if x = JNull then Inr [] else to_string x) xs) of
        Inl c \<Rightarrow> Inl c
      | Inr ss \<Rightarrow> Inr (join '','' ss))"
| "to_string (JObj kvs) =
     (if ''toString'' \<in> fst ` set kvs then Inl NotPrimitive else Inr ''[object Object]'')"

fun to_string_opt :: "json option \<Rightarrow> cause + string" where
  "to_string_opt None = Inr ''undefined''"
| "to_string_opt (Some v) = to_string v"

text \<open>
  The value assigned to \<^verbatim>\<open>textContent\<close> (a nullable DOM string):
  \<^verbatim>\<open>null\<close> and \<^verbatim>\<open>undefined\<close> give the empty text.
\<close>

fun text_content :: "json option \<Rightarrow> cause + string" where
  "text_content None = Inr []"
| "text_content (Some JNull) = Inr []"
| "text_content (Some v) = to_string v"

subsection \<open>Comparison with zero, and \<^verbatim>\<open>map\<close>\<close>

text \<open>
  \<^verbatim>\<open>x > 0\<close>: \<^verbatim>\<open>undefined\<close> is NaN, \<^verbatim>\<open>null\<close> is 0,
  \<^verbatim>\<open>true\<close> is 1; an array or an object is first converted to a string.
\<close>

fun greater_than_zero :: "engine \<Rightarrow> json option \<Rightarrow> cause + bool" where
  "greater_than_zero eng None = Inr False"
| "greater_than_zero eng (Some JNull) = Inr False"
| "greater_than_zero eng (Some (JBool b)) = Inr b"
| "greater_than_zero eng (Some (JNum n)) = Inr (0 < n)"
| "greater_than_zero eng (Some (JStr s)) = Inr (positive_numeric eng s)"
| "greater_than_zero eng (Some v) =
     bind_result (to_string v) (\<lambda>s. Inr (positive_numeric eng s))"

text \<open>
  \<^verbatim>\<open>x.map(f)\<close>, with \<open>callee\<close> the text of \<^verbatim>\<open>x.map\<close> for the
  message: only an array has the method; on a string, a number, a boolean or a parsed
  object \<^verbatim>\<open>x.map\<close> is not a function. The callback is applied to the elements
  in order, and the first exception ends the call.
\<close>

fun call_map :: "string \<Rightarrow> json option \<Rightarrow> (json \<Rightarrow> cause + 'a) \<Rightarrow> cause + 'a list" where
  "call_map callee None f = Inl (ReadUndefined ''map'')"
| "call_map callee (Some JNull) f = Inl (ReadNull ''map'')"
| "call_map callee (Some (JArr xs)) f = collect (map f xs)"
| "call_map callee (Some v) f = Inl (NotAFunction callee)"


section \<open>The page and the world around the handlers\<close>

text \<open>
  The elements the script looks up by id are the page's contract; each is a field,
  named \<open>id_attribute\<close>, holding what the script reads or writes of it. A class
  list is the ordered set of the element's classes. \<^verbatim>\<open>innerHTML\<close> and
  \<^verbatim>\<open>src\<close> hold the string last assigned. \<open>downloadBtn_onclick\<close> holds the
  arrow function assigned to it, as the \<^verbatim>\<open>data\<close> it closes over.
\<close>

datatype js_file = File string

record dom =
  startDate_value :: string
  duration_value :: string
  fileInput_files :: "js_file list"
  generationStatus_classList :: "string list"
  generationStatus_innerHTML :: string
  loading_classList :: "string list"
  results_classList :: "string list"
  totalRecords_textContent :: string
  anomalyCount_textContent :: string
  anomalyPercentage_textContent :: string
  scatterPlot_src :: string
  distributionPlot_src :: string
  downloadBtn_onclick :: "json option"
  recommendationsList_innerHTML :: string
  recommendationsCard_classList :: "string list"

datatype payload =
    JsonText json  \<comment> \<open>\<^verbatim>\<open>JSON.stringify\<close> of the value\<close>
  | FormData "(string \<times> js_file) list"

record request =
  url :: string
  http_method :: string
  headers :: "(string \<times> string) list"
  body :: payload

text \<open>
  Beyond the page, a handler's effects are the alerts it shows, the requests it sends,
  a navigation (\<^verbatim>\<open>window.location.href\<close>) and, for the submit event, whether
  its default action was prevented.
\<close>

record world = dom +
  alerts :: "string list"
  requests :: "request list"
  location_href :: string
  defaultPrevented :: bool

text \<open>
  What comes back from the server is an input of a handler: \<^verbatim>\<open>fetch\<close> rejects,
  or \<^verbatim>\<open>response.json()\<close> rejects, or it resolves to a value. The script never
  looks at the HTTP status.
\<close>

datatype reply =
    Rejected string
  | Unparsable string
  | Parsed json

definition classList_add :: "string \<Rightarrow> string list \<Rightarrow> string list" where
  "classList_add c cs = (if c \<in> set cs then cs else cs @ [c])"

definition classList_remove :: "string \<Rightarrow> string list \<Rightarrow> string list" where
  "classList_remove c cs = filter (\<lambda>x. x \<noteq> c) cs"

definition alert :: "string \<Rightarrow> 'a world_scheme \<Rightarrow> 'a world_scheme" where
  "alert msg w = w\<lparr>alerts := alerts w @ [msg]\<rparr>"

definition fetch :: "request \<Rightarrow> 'a world_scheme \<Rightarrow> 'a world_scheme" where
  "fetch req w = w\<lparr>requests := requests w @ [req]\<rparr>"

subsection \<open>Statements of a \<^verbatim>\<open>try\<close> block\<close>

text \<open>
  After the response has arrived, every statement of a \<^verbatim>\<open>try\<close> block computes
  a value from \<^verbatim>\<open>data\<close> alone and then writes to the page. A statement is
  therefore an exception, or the write it performs; the block runs its statements in
  order and stops at the first exception, keeping the writes made before it.
\<close>

type_synonym step = "js_error + (world \<Rightarrow> world)"

fun run_steps :: "step list \<Rightarrow> world \<Rightarrow> js_error option \<times> world" where
  "run_steps [] w = (None, w)"
| "run_steps (Inl e # rest) w = (Some e, w)"
| "run_steps (Inr f # rest) w = run_steps rest (f w)"

text \<open>
  The two components of \<open>run_steps\<close>, each on its own: the exception the block ends
  with, which does not depend on the world, and the world it leaves.
\<close>

fun first_throw :: "step list \<Rightarrow> js_error option" where
  "first_throw [] = None"
| "first_throw (Inl e # rest) = Some e"
| "first_throw (Inr f # rest) = first_throw rest"

fun writes :: "step list \<Rightarrow> world \<Rightarrow> world" where
  "writes [] w = w"
| "writes (Inl e # rest) w = w"
| "writes (Inr f # rest) w = writes rest (f w)"

definition assign :: "cause + 'a \<Rightarrow> ('a \<Rightarrow> world \<Rightarrow> world) \<Rightarrow> step" where
  "assign rhs write = (case rhs of Inl c \<Rightarrow> Inl (TypeError c) | Inr v \<Rightarrow> Inr (write v))"

text \<open>
  \<^verbatim>\<open>if (data.error) { throw new Error(data.error); }\<close> (lines 27-29 and 73-75).
\<close>

definition check_error :: "json \<Rightarrow> step" where
  "check_error data =
     (case get_prop data ''error'' of
        Inl c \<Rightarrow> Inl (TypeError c)
      | Inr err \<Rightarrow>
          if truthy err
          then (case to_string_opt err of Inl c \<Rightarrow> Inl (TypeError c) | Inr m \<Rightarrow> Inl (Error m))
          else Inr (\<lambda>w. w))"

section \<open>The click handler of \<^verbatim>\<open>generateBtn\<close> (lines 1-45)\<close>

definition success_banner :: "string \<Rightarrow> string" where
  \<open>success_banner filename =
     ''\<newline>            <div class="alert alert-success">\<newline>                Sample data generated successfully!\<newline>                <a href="/download_sample/''
     @ filename @
     ''" class="btn btn-sm btn-primary ms-2">Download</a>\<newline>            </div>\<newline>        ''\<close>

definition danger_banner :: "string \<Rightarrow> string" where
  \<open>danger_banner msg =
     ''\<newline>            <div class="alert alert-danger">\<newline>                Error generating sample data: ''
     @ msg @
     ''\<newline>            </div>\<newline>        ''\<close>

definition generate_try :: "reply \<Rightarrow> string \<Rightarrow> string \<Rightarrow> world \<Rightarrow> js_error option \<times> world" where
  "generate_try reply startDate duration w =
     (let w = fetch \<lparr>url = ''/generate_data'', http_method = ''POST'',
                     headers = [(''Content-Type'', ''application/json'')],
                     body = JsonText (JObj [(''start_date'', JStr startDate),
                                            (''duration'', JStr duration)])\<rparr> w
      in case reply of
           Rejected m \<Rightarrow> (Some (Failure m), w)
         | Unparsable m \<Rightarrow> (Some (Failure m), w)
         | Parsed data \<Rightarrow>
             run_steps
               [check_error data,
                assign (bind_result (get_prop data ''filename'') to_string_opt)
                  (\<lambda>filename w. w\<lparr>generationStatus_innerHTML := success_banner filename\<rparr>)]
               w)"

definition generateBtn_click :: "engine \<Rightarrow> reply \<Rightarrow> world \<Rightarrow> world" where
  "generateBtn_click eng reply w =
     (let startDate = startDate_value w;
          duration = duration_value w
      in if startDate = [] then alert ''Please select a start date'' w
         else
           let w = w\<lparr>generationStatus_classList :=
                        classList_remove ''d-none'' (generationStatus_classList w)\<rparr>
           in case generate_try reply startDate duration w of
                (None, w) \<Rightarrow> w
              | (Some error, w) \<Rightarrow>
                  w\<lparr>generationStatus_innerHTML := danger_banner (message eng error)\<rparr>)"

section \<open>The submit handler of \<^verbatim>\<open>uploadForm\<close> (lines 47-120)\<close>

subsection \<open>Rendering the recommendations (lines 98-110)\<close>

definition list_item :: "json \<Rightarrow> cause + string" where
  \<open>list_item r =
     bind_result (to_string r) (\<lambda>s. Inr (
       ''\<newline>                            <li class="list-group-item">''
       @ s @
       ''</li>\<newline>                        ''))\<close>

definition recommendation_item :: "json \<Rightarrow> cause + string" where
  \<open>recommendation_item rec =
     bind_result (get_prop rec ''severity'') (\<lambda>sev.
     bind_result (bind_result (get_prop rec ''type'') to_string_opt) (\<lambda>ty.
     bind_result (bind_result (get_prop rec ''severity'') to_string_opt) (\<lambda>severity.
     bind_result (bind_result (get_prop rec ''description'') to_string_opt) (\<lambda>description.
     bind_result (bind_result (get_prop rec ''recommendations'')
                    (\<lambda>rs. call_map ''rec.recommendations.map'' rs list_item)) (\<lambda>items.
     Inr (
       ''\<newline>                <div class="recommendation-item mb-3">\<newline>                    <h6 class="text-''
       @ (if sev = Some (JStr ''HIGH'') then ''danger'' else ''warning'') @
       ''">\<newline>                        ''
       @ ty @ '' ('' @ severity @
       '' Severity)\<newline>                    </h6>\<newline>                    <p class="mb-2">''
       @ description @
       ''</p>\<newline>                    <ul class="list-group">\<newline>                        ''
       @ concat items @
       ''\<newline>                    </ul>\<newline>                </div>\<newline>            ''))))))\<close>

definition render_recommendations :: "json \<Rightarrow> cause + string" where
  "render_recommendations data =
     bind_result (get_prop data ''recommendations'') (\<lambda>recs.
     bind_result (call_map ''data.recommendations.map'' recs recommendation_item) (\<lambda>items.
     Inr (concat items)))"

text \<open>\<^verbatim>\<open>data.recommendations && data.recommendations.length > 0\<close>\<close>

definition has_recommendations :: "engine \<Rightarrow> json \<Rightarrow> cause + bool" where
  "has_recommendations eng data =
     bind_result (get_prop data ''recommendations'') (\<lambda>recs.
       if truthy recs
       then bind_result (get_prop_opt recs ''length'') (greater_than_zero eng)
       else Inr False)"

subsection \<open>The \<^verbatim>\<open>try\<close> block\<close>

definition visualization :: "json \<Rightarrow> string \<Rightarrow> cause + string" where
  "visualization data plot =
     bind_result (bind_result (get_prop data ''timestamp'') to_string_opt) (\<lambda>timestamp.
     Inr (''/visualization/'' @ timestamp @ ''/'' @ plot))"

text \<open>Lines 73-90: the error check, the statistics, the plots, the download button.\<close>

definition update_page :: "json \<Rightarrow> step list" where
  "update_page data =
     [check_error data,
      assign (bind_result (member2 data ''statistics'' ''total_records'') text_content)
        (\<lambda>t w. w\<lparr>totalRecords_textContent := t\<rparr>),
      assign (bind_result (member2 data ''statistics'' ''anomaly_count'') text_content)
        (\<lambda>t w. w\<lparr>anomalyCount_textContent := t\<rparr>),
      assign (bind_result (bind_result (member2 data ''statistics'' ''anomaly_percentage'')
                to_string_opt) (\<lambda>p. Inr (p @ ''%'')))
        (\<lambda>t w. w\<lparr>anomalyPercentage_textContent := t\<rparr>),
      assign (visualization data ''scatter'') (\<lambda>u w. w\<lparr>scatterPlot_src := u\<rparr>),
      assign (visualization data ''distribution'') (\<lambda>u w. w\<lparr>distributionPlot_src := u\<rparr>),
      Inr (\<lambda>w. w\<lparr>downloadBtn_onclick := Some data\<rparr>)]"

text \<open>Lines 96-114: the recommendations card, shown with its items or hidden.\<close>

definition recommendations_block :: "engine \<Rightarrow> json \<Rightarrow> step" where
  "recommendations_block eng data =
     (case has_recommendations eng data of
        Inl c \<Rightarrow> Inl (TypeError c)
      | Inr True \<Rightarrow>
          assign (render_recommendations data)
            (\<lambda>html w. w\<lparr>recommendationsList_innerHTML := html,
                          recommendationsCard_classList :=
                            classList_remove ''d-none'' (recommendationsCard_classList w)\<rparr>)
      | Inr False \<Rightarrow>
          Inr (\<lambda>w. w\<lparr>recommendationsCard_classList :=
                        classList_add ''d-none'' (recommendationsCard_classList w)\<rparr>))"

text \<open>Lines 92-114: the results are shown, then the recommendations are rendered.\<close>

definition show_results :: "engine \<Rightarrow> json \<Rightarrow> step list" where
  "show_results eng data =
     [Inr (\<lambda>w. w\<lparr>loading_classList := classList_add ''d-none'' (loading_classList w)\<rparr>),
      Inr (\<lambda>w. w\<lparr>results_classList := classList_remove ''d-none'' (results_classList w)\<rparr>),
      recommendations_block eng data]"

definition analyze_try :: "engine \<Rightarrow> reply \<Rightarrow> (string \<times> js_file) list \<Rightarrow> world \<Rightarrow> js_error option \<times> world" where
  "analyze_try eng reply formData w =
     (let w = fetch \<lparr>url = ''/analyze'', http_method = ''POST'', headers = [],
                     body = FormData formData\<rparr> w
      in case reply of
           Rejected m \<Rightarrow> (Some (Failure m), w)
         | Unparsable m \<Rightarrow> (Some (Failure m), w)
         | Parsed data \<Rightarrow> run_steps (update_page data @ show_results eng data) w)"

subsection \<open>The handler\<close>

text \<open>Lines 58-119: what the handler does once a file is there.\<close>

definition upload_file :: "engine \<Rightarrow> reply \<Rightarrow> js_file \<Rightarrow> world \<Rightarrow> world" where
  "upload_file eng reply file w =
     (let w = w\<lparr>loading_classList := classList_remove ''d-none'' (loading_classList w)\<rparr>;
          w = w\<lparr>results_classList := classList_add ''d-none'' (results_classList w)\<rparr>;
          formData = [(''file'', file)]
      in (case analyze_try eng reply formData w of
            (None, w) \<Rightarrow> w
          | (Some error, w) \<Rightarrow>
              (let w = alert (''Error: '' @ message eng error) w
               in w\<lparr>loading_classList := classList_add ''d-none'' (loading_classList w)\<rparr>)))"

definition uploadForm_submit :: "engine \<Rightarrow> reply \<Rightarrow> world \<Rightarrow> world" where
  "uploadForm_submit eng reply w =
     (let w = w\<lparr>defaultPrevented := True\<rparr>
      in case fileInput_files w of
           [] \<Rightarrow> alert ''Please select a file'' w
         | file # _ \<Rightarrow> upload_file eng reply file w)"

text \<open>
  A click on the download button runs the function assigned at line 88:
  \<^verbatim>\<open>window.location.href = `/download/${data.timestamp}`\<close>. An exception in it is
  uncaught and leaves the world as it is.
\<close>

definition downloadBtn_click :: "world \<Rightarrow> world" where
  "downloadBtn_click w =
     (case downloadBtn_onclick w of
        None \<Rightarrow> w
      | Some data \<Rightarrow>
          (case bind_result (get_prop data ''timestamp'') to_string_opt of
             Inl c \<Rightarrow> w
           | Inr timestamp \<Rightarrow> w\<lparr>location_href := ''/download/'' @ timestamp\<rparr>))"

section \<open>Predicates and expected markup for the claims\<close>

text \<open>
  The \<^verbatim>\<open>try\<close> block of the submit handler throws before line 94 shows the
  results when the request or the parsing fails, or when one of lines 73-90 throws.
\<close>

definition thrown_before_results :: "reply \<Rightarrow> bool" where
  "thrown_before_results reply =
     (case reply of
        Rejected m \<Rightarrow> True
      | Unparsable m \<Rightarrow> True
      | Parsed data \<Rightarrow> first_throw (update_page data) \<noteq> None)"

text \<open>
  What \<^verbatim>\<open>throw new Error(v)\<close> throws, for the value \<open>v\<close> of a truthy
  \<^verbatim>\<open>error\<close> field: the Error whose message is \<open>v\<close> as a string, or the
  TypeError of that conversion.
\<close>

definition new_Error :: "json option \<Rightarrow> js_error" where
  "new_Error v = (case to_string_opt v of Inl c \<Rightarrow> TypeError c | Inr m \<Rightarrow> Error m)"

text \<open>
  A response is unpacked when lines 73-90 run to their end: its \<^verbatim>\<open>error\<close> is
  not truthy, and its statistics and its timestamp are there to be read and written to
  the page. (The specification's data model: "error field absent implies success
  fields present".)
\<close>

definition unpacks :: "json \<Rightarrow> bool" where
  "unpacks data \<longleftrightarrow> first_throw (update_page data) = None"

text \<open>
  A recommendation as the specification's data model types it,
  \<^verbatim>\<open>{type, severity, description, recommendations: [string]}\<close>, the JSON values
  that represent one, and the item the specification describes for it: a title
  "type (severity Severity)", styled \<^verbatim>\<open>text-danger\<close> when the severity is
  "HIGH" and \<^verbatim>\<open>text-warning\<close> otherwise, the description paragraph, and one list
  item per sub-recommendation. These definitions follow the specification, not
  the script; \<open>recommendation_item\<close> above is the script's.
\<close>

record recommendation =
  rec_type :: string
  rec_severity :: string
  rec_description :: string
  rec_recommendations :: "string list"






section \<open>Concrete inputs\<close>

text \<open>
  An engine on which the handlers can be evaluated at the inputs below: the messages
  are worded as V8 words them. Its \<open>positive_numeric\<close> is right on the strings of
  decimal digits only (positive when one of the digits is not zero) and takes every
  other string for not positive, where a real engine also reads signs, fractions,
  exponents and blanks; none of the evaluations below reaches it. Every theorem that
  mentions an engine holds for all of them.
\<close>

definition v8_message :: "cause \<Rightarrow> string" where
  "v8_message c =
     (case c of
        ReadUndefined k \<Rightarrow>
          ''Cannot read properties of undefined (reading '' @ [CHR 0x27] @ k @ [CHR 0x27] @ '')''
      | ReadNull k \<Rightarrow>
          ''Cannot read properties of null (reading '' @ [CHR 0x27] @ k @ [CHR 0x27] @ '')''
      | NotAFunction callee \<Rightarrow> callee @ '' is not a function''
      | NotPrimitive \<Rightarrow> ''Cannot convert object to primitive value'')"

definition sample_engine :: engine where
  "sample_engine =
     \<lparr>type_error_message = v8_message,
      positive_numeric =
        (\<lambda>s. list_all (\<lambda>c. c \<in> set ''0123456789'') s \<and> list_ex (\<lambda>c. c \<in> set ''123456789'') s)\<rparr>"

text \<open>
  A page as it is before any request: the panels hidden, a start date and a duration
  entered, a file chosen.
\<close>

definition page0 :: world where
  "page0 =
     \<lparr>startDate_value = ''2024-01-01'',
      duration_value = ''7'',
      fileInput_files = [File ''traffic.csv''],
      generationStatus_classList = [''mt-3'', ''d-none''],
      generationStatus_innerHTML = [],
      loading_classList = [''text-center'', ''d-none''],
      results_classList = [''d-none''],
      totalRecords_textContent = [],
      anomalyCount_textContent = [],
      anomalyPercentage_textContent = [],
      scatterPlot_src = [],
      distributionPlot_src = [],
      downloadBtn_onclick = None,
      recommendationsList_innerHTML = [],
      recommendationsCard_classList = [''card'', ''d-none''],
      alerts = [],
      requests = [],
      location_href = ''/'',
      defaultPrevented = False\<rparr>"

text \<open>The analysis response of the specification's example.\<close>

definition stats0 :: json where
  "stats0 =
     JObj [(''total_records'', JNum 100), (''anomaly_count'', JNum 5),
           (''anomaly_percentage'', JNum 5)]"


definition spike_without_list :: json where
  "spike_without_list =
     JObj [(''type'', JStr ''Spike''), (''severity'', JStr ''HIGH''), (''description'', JStr ''d'')]"

definition response :: "json list \<Rightarrow> json" where
  "response recs =
     JObj [(''statistics'', stats0), (''timestamp'', JStr ''t1''), (''recommendations'', JArr recs)]"

text \<open>
  A generation response and an analysis response that carry an \<^verbatim>\<open>error\<close> field
  with the value given, beside their success fields.
\<close>

definition generated0 :: "json \<Rightarrow> json" where
  "generated0 v = JObj [(''error'', v), (''filename'', JStr ''sample.csv'')]"

definition analyzed0 :: "json \<Rightarrow> json" where
  "analyzed0 v = JObj [(''error'', v), (''statistics'', stats0), (''timestamp'', JStr ''t1'')]"

section \<open>How a handler acts on one field\<close>

text \<open>
  For the proofs: a function on worlds acts on the field \<open>X\<close> within \<open>K\<close> when the
  new value of \<open>X\<close> is \<open>g\<close> of the old one, for one \<open>g\<close> of \<open>K\<close>. The three
  sets used are: the identity alone (the field is kept); the identity and the constant
  functions (the field is kept or assigned); and what adding and removing one class
  generate.
\<close>

definition acts :: "('v \<Rightarrow> 'v) set \<Rightarrow> (world \<Rightarrow> 'v) \<Rightarrow> (world \<Rightarrow> world) \<Rightarrow> bool" where
  "acts K X f \<longleftrightarrow> (\<exists>g\<in>K. \<forall>w. X (f w) = g (X w))"

definition step_acts :: "('v \<Rightarrow> 'v) set \<Rightarrow> (world \<Rightarrow> 'v) \<Rightarrow> step \<Rightarrow> bool" where
  "step_acts K X s \<longleftrightarrow> (case s of Inl e \<Rightarrow> True | Inr f \<Rightarrow> acts K X f)"

definition closed :: "('v \<Rightarrow> 'v) set \<Rightarrow> bool" where
  "closed K \<longleftrightarrow> id \<in> K \<and> (\<forall>g\<in>K. \<forall>h\<in>K. (\<lambda>x. h (g x)) \<in> K)"

definition kept :: "('v \<Rightarrow> 'v) set" where
  "kept = {id}"

definition assigned :: "('v \<Rightarrow> 'v) set" where
  "assigned = insert id (range (\<lambda>c x. c))"

definition toggled :: "string \<Rightarrow> (string list \<Rightarrow> string list) set" where
  "toggled c =
     {id, classList_add c, classList_remove c, (\<lambda>cs. classList_add c (classList_remove c cs))}"

section \<open>Lemmas\<close>

subsection \<open>Running a block\<close>

lemma run_steps_eq: "run_steps steps w = (first_throw steps, writes steps w)"
  by (induction steps w rule: run_steps.induct) simp_all

lemma first_throw_append:
  "first_throw (a @ b) = (case first_throw a of None \<Rightarrow> first_throw b | Some e \<Rightarrow> Some e)"
  by (induction a rule: first_throw.induct) simp_all

lemma writes_append:
  "writes (a @ b) w = (case first_throw a of None \<Rightarrow> writes b (writes a w) | Some e \<Rightarrow> writes a w)"
  by (induction a w rule: writes.induct) (simp_all split: option.split)

lemma first_throw_assign:
  "first_throw (assign rhs write # rest) =
     (case rhs of Inl c \<Rightarrow> Some (TypeError c) | Inr v \<Rightarrow> first_throw rest)"
  by (simp add: assign_def split: sum.split)

lemma writes_assign:
  "writes (assign rhs write # rest) w =
     (case rhs of Inl c \<Rightarrow> w | Inr v \<Rightarrow> writes rest (write v w))"
  by (simp add: assign_def split: sum.split)

lemma check_error_cases:
  "(\<exists>e. check_error data = Inl e) \<or> check_error data = Inr (\<lambda>w. w)"
  by (simp add: check_error_def split: sum.split)

lemma check_error_falsy:
  "get_prop data ''error'' = Inr err \<Longrightarrow> \<not> truthy err \<Longrightarrow> check_error data = Inr (\<lambda>w. w)"
  by (simp add: check_error_def)

lemma check_error_truthy:
  "get_prop data ''error'' = Inr err \<Longrightarrow> truthy err \<Longrightarrow> check_error data = Inl (new_Error err)"
  by (simp add: check_error_def new_Error_def split: sum.split)

subsection \<open>Class lists\<close>

lemma classList_add_mem: "c \<in> set (classList_add c cs)"
  by (simp add: classList_add_def)

lemma classList_remove_not_mem: "c \<notin> set (classList_remove c cs)"
  by (simp add: classList_remove_def)

lemma classList_add_add: "classList_add c (classList_add c cs) = classList_add c cs"
  by (simp add: classList_add_def)

lemma classList_remove_remove: "classList_remove c (classList_remove c cs) = classList_remove c cs"
  by (simp add: classList_remove_def)

lemma classList_remove_add: "classList_remove c (classList_add c cs) = classList_remove c cs"
  by (simp add: classList_remove_def classList_add_def)

lemmas classList_simps =
  classList_add_mem classList_remove_not_mem classList_add_add classList_remove_remove
  classList_remove_add

subsection \<open>Acting on a field\<close>

lemma closed_kept: "closed kept"
  by (simp add: closed_def kept_def id_def)

lemma closed_assigned: "closed assigned"
  by (simp add: closed_def assigned_def id_def)

lemma closed_toggled: "closed (toggled c)"
  by (simp add: closed_def toggled_def id_def classList_simps)

lemma idem_kept: "g \<in> kept \<Longrightarrow> g (g x) = g x"
  by (simp add: kept_def)

lemma idem_assigned: "g \<in> assigned \<Longrightarrow> g (g x) = g x"
  by (auto simp: assigned_def)

lemma idem_toggled: "g \<in> toggled c \<Longrightarrow> g (g x) = g x"
  by (auto simp: toggled_def classList_simps)

lemma acts_idem:
  assumes "acts K X f" and "\<And>g x. g \<in> K \<Longrightarrow> g (g x) = g x"
  shows "X (f (f w)) = X (f w)"
  using assms by (auto simp: acts_def)

lemma acts_kept: "acts kept X f \<Longrightarrow> X (f w) = X w"
  by (simp add: acts_def kept_def)

lemma acts_id: "closed K \<Longrightarrow> acts K X (\<lambda>w. w)"
  by (auto simp: acts_def closed_def intro: bexI[of _ id])

lemma acts_comp:
  assumes "closed K" and "acts K X f" and "acts K X f'"
  shows "acts K X (\<lambda>w. f' (f w))"
proof -
  from assms(2) obtain g where g: "g \<in> K" "\<And>w. X (f w) = g (X w)"
    by (auto simp: acts_def)
  from assms(3) obtain h where h: "h \<in> K" "\<And>w. X (f' w) = h (X w)"
    by (auto simp: acts_def)
  from assms(1) g(1) h(1) have "(\<lambda>x. h (g x)) \<in> K"
    by (simp add: closed_def)
  moreover have "\<And>w. X (f' (f w)) = h (g (X w))"
    by (simp add: g(2) h(2))
  ultimately show ?thesis
    unfolding acts_def by (intro bexI [of _ "\<lambda>x. h (g x)"]) simp_all
qed

lemma acts_writes:
  assumes "closed K" and "list_all (step_acts K X) steps"
  shows "acts K X (writes steps)"
  using assms(2)
proof (induction steps)
  case Nil
  have "writes [] = (\<lambda>w. w)" by (rule ext) simp
  with assms(1) show ?case by (simp add: acts_id)
next
  case (Cons s steps)
  show ?case
  proof (cases s)
    case (Inl e)
    have "writes (s # steps) = (\<lambda>w. w)" by (rule ext) (simp add: Inl)
    with assms(1) show ?thesis by (simp add: acts_id)
  next
    case (Inr f)
    have eq: "writes (s # steps) = (\<lambda>w. writes steps (f w))" by (rule ext) (simp add: Inr)
    from Cons.prems have "step_acts K X s" and "list_all (step_acts K X) steps"
      by simp_all
    with Inr have "acts K X f" and "list_all (step_acts K X) steps"
      by (simp_all add: step_acts_def)
    with Cons.IH assms(1) show ?thesis
      unfolding eq by (simp add: acts_comp [of K X f "writes steps"])
  qed
qed

lemma step_acts_assign: "(\<And>v. acts K X (write v)) \<Longrightarrow> step_acts K X (assign rhs write)"
  by (simp add: step_acts_def assign_def split: sum.split)

lemma step_acts_check_error:
  assumes "closed K"
  shows "step_acts K X (check_error data)"
proof -
  from check_error_cases [of data] show ?thesis
  proof
    assume "\<exists>e. check_error data = Inl e"
    then show ?thesis by (auto simp: step_acts_def)
  next
    assume "check_error data = Inr (\<lambda>w. w)"
    with acts_id [OF assms, of X] show ?thesis by (simp add: step_acts_def)
  qed
qed

lemma step_acts_Inr: "acts K X f \<Longrightarrow> step_acts K X (Inr f)"
  by (simp add: step_acts_def)

subsection \<open>Evaluation\<close>

lemma number_to_string_100: "number_to_string 100 = ''100''"
  by (simp add: number_to_string_def digits.simps digit_def)

lemma number_to_string_5: "number_to_string 5 = ''5''"
  by (simp add: number_to_string_def digits.simps digit_def)

lemma recommendations_block_cases:
  obtains (throws) c where "recommendations_block eng data = Inl (TypeError c)"
  | (shown) html where
      "recommendations_block eng data =
         Inr (\<lambda>w. w\<lparr>recommendationsList_innerHTML := html,
                       recommendationsCard_classList :=
                         classList_remove ''d-none'' (recommendationsCard_classList w)\<rparr>)"
  | (hidden)
      "recommendations_block eng data =
         Inr (\<lambda>w. w\<lparr>recommendationsCard_classList :=
                         classList_add ''d-none'' (recommendationsCard_classList w)\<rparr>)"
proof (cases "has_recommendations eng data")
  case (Inl c)
  then show ?thesis
    using throws by (simp add: recommendations_block_def)
next
  case (Inr b)
  show ?thesis
  proof (cases b)
    case False
    with Inr show ?thesis
      using hidden by (simp add: recommendations_block_def)
  next
    case True
    show ?thesis
    proof (cases "render_recommendations data")
      case (Inl c)
      with Inr True show ?thesis
        using throws by (simp add: recommendations_block_def assign_def)
    next
      case (Inr html)
      with \<open>has_recommendations eng data = Inr b\<close> True show ?thesis
        using shown by (simp add: recommendations_block_def assign_def)
    qed
  qed
qed

subsection \<open>The submit handler, field by field\<close>

lemma step_acts_recommendations_block:
  assumes "\<And>html. acts K X (\<lambda>w. w\<lparr>recommendationsList_innerHTML := html,
              recommendationsCard_classList :=
                classList_remove ''d-none'' (recommendationsCard_classList w)\<rparr>)"
    and "acts K X (\<lambda>w. w\<lparr>recommendationsCard_classList :=
              classList_add ''d-none'' (recommendationsCard_classList w)\<rparr>)"
  shows "step_acts K X (recommendations_block eng data)"
proof (cases rule: recommendations_block_cases [of eng data])
  case (throws c)
  then show ?thesis by (simp add: step_acts_def)
next
  case (shown html)
  with assms(1) [of html] show ?thesis by (simp add: step_acts_def)
next
  case hidden
  with assms(2) show ?thesis by (simp add: step_acts_def)
qed

lemma upload_file_acts:
  assumes K: "closed K"
    and d: "acts K X (\<lambda>w. w\<lparr>defaultPrevented := True\<rparr>)"
    and p1: "acts K X (\<lambda>w. w\<lparr>loading_classList :=
                classList_remove ''d-none'' (loading_classList w)\<rparr>)"
    and p2: "acts K X (\<lambda>w. w\<lparr>results_classList :=
                classList_add ''d-none'' (results_classList w)\<rparr>)"
    and p3: "\<And>req. acts K X (fetch req)"
    and u1: "\<And>t. acts K X (\<lambda>w. w\<lparr>totalRecords_textContent := t\<rparr>)"
    and u2: "\<And>t. acts K X (\<lambda>w. w\<lparr>anomalyCount_textContent := t\<rparr>)"
    and u3: "\<And>t. acts K X (\<lambda>w. w\<lparr>anomalyPercentage_textContent := t\<rparr>)"
    and u4: "\<And>u. acts K X (\<lambda>w. w\<lparr>scatterPlot_src := u\<rparr>)"
    and u5: "\<And>u. acts K X (\<lambda>w. w\<lparr>distributionPlot_src := u\<rparr>)"
    and u6: "\<And>h. acts K X (\<lambda>w. w\<lparr>downloadBtn_onclick := h\<rparr>)"
    and r1: "acts K X (\<lambda>w. w\<lparr>loading_classList :=
                classList_add ''d-none'' (loading_classList w)\<rparr>)"
    and r2: "acts K X (\<lambda>w. w\<lparr>results_classList :=
                classList_remove ''d-none'' (results_classList w)\<rparr>)"
    and r3: "\<And>html. acts K X (\<lambda>w. w\<lparr>recommendationsList_innerHTML := html,
                recommendationsCard_classList :=
                  classList_remove ''d-none'' (recommendationsCard_classList w)\<rparr>)"
    and r4: "acts K X (\<lambda>w. w\<lparr>recommendationsCard_classList :=
                classList_add ''d-none'' (recommendationsCard_classList w)\<rparr>)"
    and c1: "\<And>msg. acts K X (alert msg)"
  shows "acts K X (\<lambda>w. upload_file eng reply upload (w\<lparr>defaultPrevented := True\<rparr>))"
proof -
  define req where
    "req = \<lparr>url = ''/analyze'', http_method = ''POST'', headers = [],
            body = FormData [(''file'', upload)]\<rparr>"
  define start :: "world \<Rightarrow> world" where
    "start = (\<lambda>w. fetch req (w\<lparr>defaultPrevented := True,
        loading_classList := classList_remove ''d-none'' (loading_classList w),
        results_classList := classList_add ''d-none'' (results_classList w)\<rparr>))"
  define caught :: "string \<Rightarrow> world \<Rightarrow> world" where
    "caught = (\<lambda>msg w. w\<lparr>alerts := alerts w @ [msg],
        loading_classList := classList_add ''d-none'' (loading_classList w)\<rparr>)"
  have start: "acts K X start"
  proof -
    have "start = (\<lambda>w. fetch req
        ((\<lambda>w. w\<lparr>results_classList := classList_add ''d-none'' (results_classList w)\<rparr>)
          ((\<lambda>w. w\<lparr>loading_classList := classList_remove ''d-none'' (loading_classList w)\<rparr>)
            (w\<lparr>defaultPrevented := True\<rparr>))))"
      by (rule ext) (simp add: start_def)
    with acts_comp [OF K acts_comp [OF K acts_comp [OF K d p1] p2] p3 [of req]]
    show ?thesis by simp
  qed
  have caught: "acts K X (caught msg)" for msg
  proof -
    have "caught msg =
      (\<lambda>w. (\<lambda>w. w\<lparr>loading_classList := classList_add ''d-none'' (loading_classList w)\<rparr>)
        (alert msg w))"
      by (rule ext) (simp add: caught_def alert_def)
    with acts_comp [OF K c1 [of msg] r1] show ?thesis by simp
  qed
  have failed: "acts K X (\<lambda>w. caught msg (start w))" for msg
    by (rule acts_comp [OF K start caught])
  show ?thesis
  proof (cases reply)
    case (Rejected m)
    have "(\<lambda>w. upload_file eng reply upload (w\<lparr>defaultPrevented := True\<rparr>)) =
          (\<lambda>w. caught (''Error: '' @ message eng (Failure m)) (start w))"
      by (rule ext)
        (simp add: Let_def Rejected upload_file_def analyze_try_def start_def caught_def req_def
          alert_def fetch_def)
    with failed show ?thesis by simp
  next
    case (Unparsable m)
    have "(\<lambda>w. upload_file eng reply upload (w\<lparr>defaultPrevented := True\<rparr>)) =
          (\<lambda>w. caught (''Error: '' @ message eng (Failure m)) (start w))"
      by (rule ext)
        (simp add: Let_def Unparsable upload_file_def analyze_try_def start_def caught_def req_def
          alert_def fetch_def)
    with failed show ?thesis by simp
  next
    case (Parsed data)
    define steps where "steps = update_page data @ show_results eng data"
    have "list_all (step_acts K X) steps"
      unfolding steps_def update_page_def show_results_def
      by (simp add: step_acts_check_error [OF K] step_acts_assign step_acts_Inr
          step_acts_recommendations_block u1 u2 u3 u4 u5 u6 r1 r2 r3 r4)
    then have run: "acts K X (writes steps)"
      by (rule acts_writes [OF K])
    have body: "acts K X (\<lambda>w. writes steps (start w))"
      by (rule acts_comp [OF K start run])
    show ?thesis
    proof (cases "first_throw steps")
      case None
      have "(\<lambda>w. upload_file eng reply upload (w\<lparr>defaultPrevented := True\<rparr>)) =
            (\<lambda>w. writes steps (start w))"
        by (rule ext)
          (simp add: Let_def Parsed None upload_file_def analyze_try_def run_steps_eq start_def
            req_def fetch_def flip: steps_def)
      with body show ?thesis by simp
    next
      case (Some e)
      have "(\<lambda>w. upload_file eng reply upload (w\<lparr>defaultPrevented := True\<rparr>)) =
            (\<lambda>w. caught (''Error: '' @ message eng e) (writes steps (start w)))"
        by (rule ext)
          (simp add: Let_def Parsed Some upload_file_def analyze_try_def run_steps_eq start_def
            caught_def req_def alert_def fetch_def flip: steps_def)
      with acts_comp [OF K body caught [of "''Error: '' @ message eng e"]]
      show ?thesis by simp
    qed
  qed
qed

lemmas world_simps = acts_def kept_def assigned_def toggled_def alert_def fetch_def

lemma submit_keeps:
  "acts kept startDate_value (\<lambda>w. upload_file eng reply upload (w\<lparr>defaultPrevented := True\<rparr>))"
  "acts kept duration_value (\<lambda>w. upload_file eng reply upload (w\<lparr>defaultPrevented := True\<rparr>))"
  "acts kept fileInput_files (\<lambda>w. upload_file eng reply upload (w\<lparr>defaultPrevented := True\<rparr>))"
  "acts kept generationStatus_classList
     (\<lambda>w. upload_file eng reply upload (w\<lparr>defaultPrevented := True\<rparr>))"
  "acts kept generationStatus_innerHTML
     (\<lambda>w. upload_file eng reply upload (w\<lparr>defaultPrevented := True\<rparr>))"
  by (rule upload_file_acts [OF closed_kept]; simp add: world_simps)+

lemma submit_assigns:
  "acts assigned totalRecords_textContent
     (\<lambda>w. upload_file eng reply upload (w\<lparr>defaultPrevented := True\<rparr>))"
  "acts assigned anomalyCount_textContent
     (\<lambda>w. upload_file eng reply upload (w\<lparr>defaultPrevented := True\<rparr>))"
  "acts assigned anomalyPercentage_textContent
     (\<lambda>w. upload_file eng reply upload (w\<lparr>defaultPrevented := True\<rparr>))"
  "acts assigned scatterPlot_src
     (\<lambda>w. upload_file eng reply upload (w\<lparr>defaultPrevented := True\<rparr>))"
  "acts assigned distributionPlot_src
     (\<lambda>w. upload_file eng reply upload (w\<lparr>defaultPrevented := True\<rparr>))"
  "acts assigned downloadBtn_onclick
     (\<lambda>w. upload_file eng reply upload (w\<lparr>defaultPrevented := True\<rparr>))"
  "acts assigned recommendationsList_innerHTML
     (\<lambda>w. upload_file eng reply upload (w\<lparr>defaultPrevented := True\<rparr>))"
  by (rule upload_file_acts [OF closed_assigned]; simp add: world_simps)+

lemma submit_toggles:
  "acts (toggled ''d-none'') loading_classList
     (\<lambda>w. upload_file eng reply upload (w\<lparr>defaultPrevented := True\<rparr>))"
  "acts (toggled ''d-none'') results_classList
     (\<lambda>w. upload_file eng reply upload (w\<lparr>defaultPrevented := True\<rparr>))"
  "acts (toggled ''d-none'') recommendationsCard_classList
     (\<lambda>w. upload_file eng reply upload (w\<lparr>defaultPrevented := True\<rparr>))"
  by (rule upload_file_acts [OF closed_toggled]; simp add: world_simps)+

subsection \<open>What the \<^verbatim>\<open>try\<close> block of the submit handler leaves alone\<close>

lemma update_page_keeps:
  "acts kept alerts (writes (update_page data))"
  "acts kept loading_classList (writes (update_page data))"
  "acts kept results_classList (writes (update_page data))"
  "acts kept recommendationsCard_classList (writes (update_page data))"
  "acts kept recommendationsList_innerHTML (writes (update_page data))"
  by (rule acts_writes [OF closed_kept],
      simp add: update_page_def step_acts_check_error [OF closed_kept, unfolded kept_def]
        step_acts_assign step_acts_Inr world_simps)+

lemma show_results_keeps_alerts: "acts kept alerts (writes (show_results eng data))"
  by (rule acts_writes [OF closed_kept])
    (simp add: show_results_def step_acts_Inr step_acts_recommendations_block world_simps)

lemma upload_file_Parsed:
  "upload_file eng (Parsed data) upload w =
     (let w1 = fetch \<lparr>url = ''/analyze'', http_method = ''POST'', headers = [],
                       body = FormData [(''file'', upload)]\<rparr>
                 (w\<lparr>loading_classList := classList_remove ''d-none'' (loading_classList w),
                    results_classList := classList_add ''d-none'' (results_classList w)\<rparr>);
          w2 = writes (update_page data) w1
      in case first_throw (update_page data) of
           Some e \<Rightarrow>
             w2\<lparr>alerts := alerts w2 @ [''Error: '' @ message eng e],
                loading_classList := classList_add ''d-none'' (loading_classList w2)\<rparr>
         | None \<Rightarrow>
             (let w3 = writes (show_results eng data) w2
              in case first_throw (show_results eng data) of
                   Some e \<Rightarrow>
                     w3\<lparr>alerts := alerts w3 @ [''Error: '' @ message eng e],
                        loading_classList := classList_add ''d-none'' (loading_classList w3)\<rparr>
                 | None \<Rightarrow> w3))"
  by (simp add: upload_file_def analyze_try_def run_steps_eq first_throw_append writes_append
      alert_def Let_def split: option.split)





lemma recommendations_block_hidden:
  assumes "get_prop data ''recommendations'' = Inr None
         \<or> get_prop data ''recommendations'' = Inr (Some (JArr []))"
  shows "recommendations_block eng data =
     Inr (\<lambda>w. w\<lparr>recommendationsCard_classList :=
                     classList_add ''d-none'' (recommendationsCard_classList w)\<rparr>)"
  using assms
  by (auto simp: recommendations_block_def has_recommendations_def bind_result_def)

lemma data_model_unpacks:
  assumes "get_prop data ''error'' = Inr err" and "\<not> truthy err"
    and "get_prop data ''statistics'' = Inr (Some st)"
    and "get_prop st ''total_records'' = Inr (Some (JNum a))"
    and "get_prop st ''anomaly_count'' = Inr (Some (JNum b))"
    and "get_prop st ''anomaly_percentage'' = Inr (Some (JNum c))"
    and "get_prop data ''timestamp'' = Inr (Some (JStr t))"
  shows "unpacks data"
  using assms
  by (simp add: unpacks_def update_page_def check_error_falsy assign_def member2_def
      bind_result_def visualization_def)

subsection \<open>The specification's example response\<close>

lemma update_page_example:
  assumes "get_prop data ''error'' = Inr err" and "\<not> truthy err"
    and "get_prop data ''statistics'' =
          Inr (Some (JObj [(''total_records'', JNum 100), (''anomaly_count'', JNum 5),
                           (''anomaly_percentage'', JNum 5)]))"
    and "get_prop data ''timestamp'' = Inr (Some (JStr t))"
  shows "update_page data =
     [Inr (\<lambda>w. w),
      Inr (\<lambda>w. w\<lparr>totalRecords_textContent := ''100''\<rparr>),
      Inr (\<lambda>w. w\<lparr>anomalyCount_textContent := ''5''\<rparr>),
      Inr (\<lambda>w. w\<lparr>anomalyPercentage_textContent := ''5%''\<rparr>),
      Inr (\<lambda>w. w\<lparr>scatterPlot_src := ''/visualization/'' @ t @ ''/scatter''\<rparr>),
      Inr (\<lambda>w. w\<lparr>distributionPlot_src := ''/visualization/'' @ t @ ''/distribution''\<rparr>),
      Inr (\<lambda>w. w\<lparr>downloadBtn_onclick := Some data\<rparr>)]"
  using assms
  by (simp add: update_page_def check_error_falsy assign_def member2_def bind_result_def
      visualization_def number_to_string_100 number_to_string_5)

section \<open>Claims about the generation trigger\<close>

text \<open>
  C3. A click on \<^verbatim>\<open>generateBtn\<close> while the start date is empty shows the alert
  "Please select a start date" and returns: nothing is sent to the server, whatever
  the server would have answered.
\<close>

theorem generate_without_start_date:
  assumes "startDate_value w = []"
  shows "alerts (generateBtn_click eng reply w) = alerts w @ [''Please select a start date'']
       \<and> requests (generateBtn_click eng reply w) = requests w"
  using assms by (simp add: generateBtn_click_def alert_def)

theorem generate_without_start_date_witness:
  "startDate_value (page0\<lparr>startDate_value := []\<rparr>) = []
   \<and> alerts (generateBtn_click sample_engine (Parsed (JObj [(''filename'', JStr ''sample.csv'')]))
        (page0\<lparr>startDate_value := []\<rparr>)) = [''Please select a start date'']
   \<and> requests (generateBtn_click sample_engine (Parsed (JObj [(''filename'', JStr ''sample.csv'')]))
        (page0\<lparr>startDate_value := []\<rparr>)) = []"
  using generate_without_start_date
    [of "page0\<lparr>startDate_value := []\<rparr>" sample_engine
        "Parsed (JObj [(''filename'', JStr ''sample.csv'')])"]
  by (simp add: page0_def)

text \<open>
  C7. When the generation response has no truthy \<^verbatim>\<open>error\<close> and its
  \<^verbatim>\<open>filename\<close> is "sample.csv", the status region is visible after the click
  (no \<^verbatim>\<open>d-none\<close>) and its content is the success banner with the link to
  \<^verbatim>\<open>/download_sample/sample.csv\<close>.
\<close>

theorem generate_success_banner:
  assumes \<open>startDate_value w \<noteq> []\<close>
    and \<open>get_prop data ''error'' = Inr err\<close> and \<open>\<not> truthy err\<close>
    and \<open>get_prop data ''filename'' = Inr (Some (JStr ''sample.csv''))\<close>
  shows \<open>''d-none'' \<notin> set (generationStatus_classList (generateBtn_click eng (Parsed data) w))
       \<and> generationStatus_innerHTML (generateBtn_click eng (Parsed data) w) =
           ''\<newline>            <div class="alert alert-success">\<newline>                Sample data generated successfully!\<newline>                <a href="/download_sample/sample.csv" class="btn btn-sm btn-primary ms-2">Download</a>\<newline>            </div>\<newline>        ''\<close>
  using assms
  by (simp add: generateBtn_click_def generate_try_def run_steps_eq check_error_falsy
      first_throw_assign writes_assign bind_result_def success_banner_def fetch_def
      classList_simps)

theorem generate_success_banner_witness:
  \<open>startDate_value page0 \<noteq> []
   \<and> get_prop (JObj [(''filename'', JStr ''sample.csv'')]) ''error'' = Inr None
   \<and> \<not> truthy None
   \<and> get_prop (JObj [(''filename'', JStr ''sample.csv'')]) ''filename'' =
       Inr (Some (JStr ''sample.csv''))
   \<and> ''d-none'' \<notin> set (generationStatus_classList
         (generateBtn_click sample_engine (Parsed (JObj [(''filename'', JStr ''sample.csv'')])) page0))
   \<and> generationStatus_innerHTML
         (generateBtn_click sample_engine (Parsed (JObj [(''filename'', JStr ''sample.csv'')])) page0) =
       ''\<newline>            <div class="alert alert-success">\<newline>                Sample data generated successfully!\<newline>                <a href="/download_sample/sample.csv" class="btn btn-sm btn-primary ms-2">Download</a>\<newline>            </div>\<newline>        ''\<close>
  using generate_success_banner
    [of page0 "JObj [(''filename'', JStr ''sample.csv'')]" None sample_engine]
  by (simp add: page0_def)

text \<open>
  C8. When the body of the generation response is \<^verbatim>\<open>{error: "bad range"}\<close>, the
  status region holds the danger banner with the text "Error generating sample data:
  bad range"; when the request fails with message \<open>m\<close> (the fetch is rejected, or the
  body does not parse), it holds the danger banner with "Error generating sample data: "
  followed by \<open>m\<close>. In each case no alert is shown.
\<close>

theorem generate_error_banner:
  assumes \<open>startDate_value w \<noteq> []\<close>
  shows \<open>generationStatus_innerHTML
           (generateBtn_click eng (Parsed (JObj [(''error'', JStr ''bad range'')])) w) =
           ''\<newline>            <div class="alert alert-danger">\<newline>                Error generating sample data: bad range\<newline>            </div>\<newline>        ''
       \<and> alerts (generateBtn_click eng (Parsed (JObj [(''error'', JStr ''bad range'')])) w) = alerts w
       \<and> generationStatus_innerHTML (generateBtn_click eng (Rejected m) w) =
           ''\<newline>            <div class="alert alert-danger">\<newline>                Error generating sample data: '' @ m @ ''\<newline>            </div>\<newline>        ''
       \<and> alerts (generateBtn_click eng (Rejected m) w) = alerts w
       \<and> generationStatus_innerHTML (generateBtn_click eng (Unparsable m) w) =
           ''\<newline>            <div class="alert alert-danger">\<newline>                Error generating sample data: '' @ m @ ''\<newline>            </div>\<newline>        ''
       \<and> alerts (generateBtn_click eng (Unparsable m) w) = alerts w\<close>
  using assms
  by (simp add: generateBtn_click_def generate_try_def run_steps_eq check_error_def
      danger_banner_def message_def fetch_def)

theorem generate_error_banner_witness:
  \<open>startDate_value page0 \<noteq> []
   \<and> generationStatus_innerHTML
         (generateBtn_click sample_engine (Parsed (JObj [(''error'', JStr ''bad range'')])) page0) =
       ''\<newline>            <div class="alert alert-danger">\<newline>                Error generating sample data: bad range\<newline>            </div>\<newline>        ''
   \<and> generationStatus_innerHTML (generateBtn_click sample_engine (Rejected ''Failed to fetch'') page0) =
       ''\<newline>            <div class="alert alert-danger">\<newline>                Error generating sample data: Failed to fetch\<newline>            </div>\<newline>        ''
   \<and> alerts (generateBtn_click sample_engine (Rejected ''Failed to fetch'') page0) = []\<close>
  using generate_error_banner [of page0 sample_engine "''Failed to fetch''"]
  by (simp add: page0_def)

section \<open>Claims about the upload trigger\<close>

text \<open>
  C4. A submit of \<^verbatim>\<open>uploadForm\<close> while no file is selected prevents the default
  submission, shows the alert "Please select a file" and returns: nothing is sent to
  the server, whatever the server would have answered.
\<close>

theorem submit_without_file:
  assumes "fileInput_files w = []"
  shows "defaultPrevented (uploadForm_submit eng reply w)
       \<and> alerts (uploadForm_submit eng reply w) = alerts w @ [''Please select a file'']
       \<and> requests (uploadForm_submit eng reply w) = requests w"
  using assms by (simp add: uploadForm_submit_def alert_def)

theorem submit_without_file_witness:
  "fileInput_files (page0\<lparr>fileInput_files := []\<rparr>) = []
   \<and> defaultPrevented (uploadForm_submit sample_engine (Rejected ''Failed to fetch'')
        (page0\<lparr>fileInput_files := []\<rparr>))
   \<and> alerts (uploadForm_submit sample_engine (Rejected ''Failed to fetch'')
        (page0\<lparr>fileInput_files := []\<rparr>)) = [''Please select a file'']
   \<and> requests (uploadForm_submit sample_engine (Rejected ''Failed to fetch'')
        (page0\<lparr>fileInput_files := []\<rparr>)) = []"
  using submit_without_file
    [of "page0\<lparr>fileInput_files := []\<rparr>" sample_engine "Rejected ''Failed to fetch''"]
  by (simp add: page0_def)

text \<open>
  C1. For every analysis response with no truthy \<^verbatim>\<open>error\<close>, with the statistics
  \<^verbatim>\<open>{total_records: 100, anomaly_count: 5, anomaly_percentage: 5}\<close> and the
  timestamp "t1", whatever else it holds: after the submit handler the three statistic
  elements read "100", "5" and "5%", the two images point at
  \<^verbatim>\<open>/visualization/t1/scatter\<close> and \<^verbatim>\<open>/visualization/t1/distribution\<close>,
  and a click on the download button navigates to \<^verbatim>\<open>/download/t1\<close>.
\<close>

theorem analyze_statistics_rendered:
  assumes "fileInput_files w \<noteq> []"
    and "get_prop data ''error'' = Inr err" and "\<not> truthy err"
    and "get_prop data ''statistics'' =
          Inr (Some (JObj [(''total_records'', JNum 100), (''anomaly_count'', JNum 5),
                           (''anomaly_percentage'', JNum 5)]))"
    and "get_prop data ''timestamp'' = Inr (Some (JStr ''t1''))"
  shows "totalRecords_textContent (uploadForm_submit eng (Parsed data) w) = ''100''
       \<and> anomalyCount_textContent (uploadForm_submit eng (Parsed data) w) = ''5''
       \<and> anomalyPercentage_textContent (uploadForm_submit eng (Parsed data) w) = ''5%''
       \<and> scatterPlot_src (uploadForm_submit eng (Parsed data) w) = ''/visualization/t1/scatter''
       \<and> distributionPlot_src (uploadForm_submit eng (Parsed data) w) =
           ''/visualization/t1/distribution''
       \<and> location_href (downloadBtn_click (uploadForm_submit eng (Parsed data) w)) =
           ''/download/t1''"
proof -
  from assms(1) obtain upload fs where files: "fileInput_files w = upload # fs"
    by (cases "fileInput_files w") simp_all
  note up = update_page_example [OF assms(2-5)]
  note defs = uploadForm_submit_def upload_file_def analyze_try_def run_steps_eq
    show_results_def first_throw_append writes_append downloadBtn_click_def alert_def
    fetch_def bind_result_def
  show ?thesis
  proof (cases rule: recommendations_block_cases [of eng data])
    case (throws c)
    with files up assms(5) show ?thesis by (simp add: defs)
  next
    case (shown html)
    with files up assms(5) show ?thesis by (simp add: defs)
  next
    case hidden
    with files up assms(5) show ?thesis by (simp add: defs)
  qed
qed

theorem analyze_statistics_rendered_witness:
  "fileInput_files page0 \<noteq> []
   \<and> get_prop (JObj [(''statistics'', stats0), (''timestamp'', JStr ''t1'')]) ''error'' = Inr None
   \<and> \<not> truthy None
   \<and> totalRecords_textContent (uploadForm_submit sample_engine
        (Parsed (JObj [(''statistics'', stats0), (''timestamp'', JStr ''t1'')])) page0) = ''100''
   \<and> anomalyCount_textContent (uploadForm_submit sample_engine
        (Parsed (JObj [(''statistics'', stats0), (''timestamp'', JStr ''t1'')])) page0) = ''5''
   \<and> anomalyPercentage_textContent (uploadForm_submit sample_engine
        (Parsed (JObj [(''statistics'', stats0), (''timestamp'', JStr ''t1'')])) page0) = ''5%''
   \<and> scatterPlot_src (uploadForm_submit sample_engine
        (Parsed (JObj [(''statistics'', stats0), (''timestamp'', JStr ''t1'')])) page0) =
       ''/visualization/t1/scatter''
   \<and> distributionPlot_src (uploadForm_submit sample_engine
        (Parsed (JObj [(''statistics'', stats0), (''timestamp'', JStr ''t1'')])) page0) =
       ''/visualization/t1/distribution''
   \<and> location_href (downloadBtn_click (uploadForm_submit sample_engine
        (Parsed (JObj [(''statistics'', stats0), (''timestamp'', JStr ''t1'')])) page0)) =
       ''/download/t1''"
  using analyze_statistics_rendered
    [of page0 "JObj [(''statistics'', stats0), (''timestamp'', JStr ''t1'')]" None sample_engine]
  by (simp add: page0_def stats0_def)

text \<open>
  C2, as amended. When the \<^verbatim>\<open>try\<close> block of the submit handler throws \<open>e\<close>
  (the fetch is rejected, the body does not parse, the \<^verbatim>\<open>error\<close> field is
  truthy, or an exception is thrown while the response is unpacked or rendered), the
  handler shows the alert "Error: " followed by the message of \<open>e\<close> and the loading
  indicator ends with \<^verbatim>\<open>d-none\<close>. When \<open>e\<close> is thrown before line 94 shows the
  results, the results panel ends hidden as well.
\<close>

theorem analyze_error_alert:
  assumes "fileInput_files w \<noteq> []"
    and "fst (analyze_try eng reply formData w') = Some e"
  shows "alerts (uploadForm_submit eng reply w) = alerts w @ [''Error: '' @ message eng e]
       \<and> ''d-none'' \<in> set (loading_classList (uploadForm_submit eng reply w))
       \<and> (thrown_before_results reply \<longrightarrow>
            ''d-none'' \<in> set (results_classList (uploadForm_submit eng reply w)))"
proof -
  from assms(1) obtain upload fs where files: "fileInput_files w = upload # fs"
    by (cases "fileInput_files w") simp_all
  show ?thesis
  proof (cases reply)
    case (Rejected m)
    with assms(2) files show ?thesis
      by (simp add: uploadForm_submit_def upload_file_def analyze_try_def alert_def fetch_def
          classList_simps)
  next
    case (Unparsable m)
    with assms(2) files show ?thesis
      by (simp add: uploadForm_submit_def upload_file_def analyze_try_def alert_def fetch_def
          classList_simps)
  next
    case (Parsed data)
    note keeps = update_page_keeps [of data, THEN acts_kept]
      show_results_keeps_alerts [of eng data, THEN acts_kept]
    from assms(2) Parsed
    have e: "(case first_throw (update_page data) of
                None \<Rightarrow> first_throw (show_results eng data) | Some e \<Rightarrow> Some e) = Some e"
      by (simp add: analyze_try_def run_steps_eq first_throw_append)
    show ?thesis
    proof (cases "first_throw (update_page data)")
      case (Some e')
      with e files Parsed show ?thesis
        by (simp add: uploadForm_submit_def upload_file_Parsed keeps fetch_def classList_simps)
    next
      case None
      with e files Parsed show ?thesis
        by (simp add: uploadForm_submit_def upload_file_Parsed keeps fetch_def classList_simps
            thrown_before_results_def Let_def)
    qed
  qed
qed

theorem analyze_error_alert_witness:
  "fileInput_files page0 \<noteq> []
   \<and> fst (analyze_try sample_engine (Parsed (JObj [(''error'', JStr ''bad file'')])) [] page0) =
       Some (Error ''bad file'')
   \<and> thrown_before_results (Parsed (JObj [(''error'', JStr ''bad file'')]))
   \<and> alerts (uploadForm_submit sample_engine (Parsed (JObj [(''error'', JStr ''bad file'')])) page0) =
       [''Error: bad file'']
   \<and> ''d-none'' \<in> set (loading_classList
         (uploadForm_submit sample_engine (Parsed (JObj [(''error'', JStr ''bad file'')])) page0))
   \<and> ''d-none'' \<in> set (results_classList
         (uploadForm_submit sample_engine (Parsed (JObj [(''error'', JStr ''bad file'')])) page0))"
proof -
  have thrown: "fst (analyze_try sample_engine (Parsed (JObj [(''error'', JStr ''bad file'')]))
      [] page0) = Some (Error ''bad file'')"
    by (simp add: analyze_try_def run_steps_eq first_throw_append update_page_def
        check_error_def)
  have early: "thrown_before_results (Parsed (JObj [(''error'', JStr ''bad file'')]))"
    by (simp add: thrown_before_results_def update_page_def check_error_def)
  have files: "fileInput_files page0 \<noteq> []"
    by (simp add: page0_def)
  from analyze_error_alert [OF files thrown] early files thrown show ?thesis
    by (simp add: message_def page0_def)
qed

text \<open>
  C2 as stated fails: a recommendation without its list of sub-recommendations makes
  line 105 throw after line 94 has shown the results. The run ends in an error, the
  alert is shown, and the results panel is visible.
\<close>

theorem analyze_error_results_visible:
  "fst (analyze_try sample_engine (Parsed (response [spike_without_list]))
         [(''file'', File ''traffic.csv'')] page0) = Some (TypeError (ReadUndefined ''map''))
   \<and> alerts (uploadForm_submit sample_engine (Parsed (response [spike_without_list])) page0) =
       [''Error: Cannot read properties of undefined (reading '' @ [CHR 0x27] @ ''map''
          @ [CHR 0x27] @ '')'']
   \<and> ''d-none'' \<notin> set (results_classList
         (uploadForm_submit sample_engine (Parsed (response [spike_without_list])) page0))"
proof -
  have block: "recommendations_block sample_engine (response [spike_without_list]) =
      Inl (TypeError (ReadUndefined ''map''))"
    by (simp add: recommendations_block_def has_recommendations_def render_recommendations_def
        recommendation_item_def response_def spike_without_list_def bind_result_def assign_def)
  have up: "first_throw (update_page (response [spike_without_list])) = None"
    by (simp add: update_page_def check_error_def assign_def member2_def visualization_def
        bind_result_def response_def stats0_def)
  from block up show ?thesis
    by (simp add: uploadForm_submit_def upload_file_Parsed analyze_try_def run_steps_eq
        first_throw_append show_results_def update_page_keeps [THEN acts_kept]
        fetch_def page0_def message_def sample_engine_def v8_message_def classList_simps
        classList_remove_def)
qed




text \<open>
  C6. For every unpacked analysis response whose \<^verbatim>\<open>recommendations\<close> is absent
  or the empty list, the recommendations card ends with \<^verbatim>\<open>d-none\<close> and nothing
  is rendered: the markup of the recommendations list is what it was, and no alert is
  shown.
\<close>

theorem no_recommendations_hidden:
  assumes "fileInput_files w \<noteq> []"
    and "unpacks data"
    and "get_prop data ''recommendations'' = Inr None
       \<or> get_prop data ''recommendations'' = Inr (Some (JArr []))"
  shows "''d-none'' \<in> set (recommendationsCard_classList (uploadForm_submit eng (Parsed data) w))
       \<and> recommendationsList_innerHTML (uploadForm_submit eng (Parsed data) w) =
           recommendationsList_innerHTML w
       \<and> alerts (uploadForm_submit eng (Parsed data) w) = alerts w"
proof -
  from assms(1) obtain upload fs where files: "fileInput_files w = upload # fs"
    by (cases "fileInput_files w") simp_all
  note keeps = update_page_keeps [of data, THEN acts_kept]
  from files assms(2) recommendations_block_hidden [OF assms(3), of eng] show ?thesis
    by (simp add: uploadForm_submit_def upload_file_Parsed unpacks_def show_results_def keeps
        fetch_def classList_simps)
qed

theorem no_recommendations_hidden_witness:
  "fileInput_files page0 \<noteq> []
   \<and> unpacks (response [])
   \<and> get_prop (response []) ''recommendations'' = Inr (Some (JArr []))
   \<and> ''d-none'' \<in> set (recommendationsCard_classList
         (uploadForm_submit sample_engine (Parsed (response [])) page0))
   \<and> recommendationsList_innerHTML (uploadForm_submit sample_engine (Parsed (response [])) page0) = []
   \<and> alerts (uploadForm_submit sample_engine (Parsed (response [])) page0) = []"
proof -
  have files: "fileInput_files page0 \<noteq> []"
    by (simp add: page0_def)
  have up: "unpacks (response [])"
    by (simp add: unpacks_def update_page_def check_error_def assign_def member2_def
        visualization_def bind_result_def response_def stats0_def)
  have recs: "get_prop (response []) ''recommendations'' = Inr (Some (JArr []))"
    by (simp add: response_def)
  from no_recommendations_hidden [OF files up disjI2 [OF recs], of sample_engine] files up recs
  show ?thesis
    by (simp add: page0_def)
qed

text \<open>
  C10. Running the submit handler a second time on the same reply leaves the page as
  the first run left it: every field of the page after two runs equals the field after
  one. (The runs differ only outside the page: the second run sends its own request
  and, on a failing reply, shows its own alert.) This holds for every reply, the
  successful ones among them.
\<close>

theorem submit_idempotent:
  "dom.truncate (uploadForm_submit eng reply (uploadForm_submit eng reply w)) =
   dom.truncate (uploadForm_submit eng reply w)"
proof (cases "fileInput_files w")
  case Nil
  then show ?thesis
    by (simp add: uploadForm_submit_def alert_def dom.truncate_def)
next
  case (Cons upload fs)
  define run where
    "run = (\<lambda>w. upload_file eng reply upload (w\<lparr>defaultPrevented := True\<rparr>))"
  have files: "fileInput_files (run w) = upload # fs"
    using acts_kept [OF submit_keeps(3), of eng reply upload w] Cons by (simp add: run_def)
  have once: "uploadForm_submit eng reply w = run w"
    using Cons by (simp add: uploadForm_submit_def run_def)
  have twice: "uploadForm_submit eng reply (run w) = run (run w)"
    using files by (simp add: uploadForm_submit_def run_def)
  note keeps = submit_keeps [of eng reply upload, folded run_def, THEN acts_idem, OF idem_kept]
  note assigns =
    submit_assigns [of eng reply upload, folded run_def, THEN acts_idem, OF idem_assigned]
  note toggles =
    submit_toggles [of eng reply upload, folded run_def, THEN acts_idem, OF idem_toggled]
  show ?thesis
    unfolding once twice by (simp add: dom.truncate_def keeps assigns toggles)
qed

section \<open>A claim about both triggers\<close>

text \<open>
  C9. Both handlers decide between failure and success by the truthiness of the
  response's \<^verbatim>\<open>error\<close> field, not by its presence. When its value is truthy,
  \<^verbatim>\<open>new Error\<close> of it is thrown: the click handler renders the danger banner
  with its message, and the submit handler shows the alert with its message, writes no
  statistic and leaves the results panel hidden. When its value is not truthy, be the
  field absent or present (with the empty string, 0, \<^verbatim>\<open>false\<close> or
  \<^verbatim>\<open>null\<close>), the click handler renders the success banner for the response's
  \<^verbatim>\<open>filename\<close> and shows no alert, and the submit handler writes the statistics
  and shows the results panel.
\<close>

theorem handlers_decide_by_truthiness:
  assumes "get_prop generated ''error'' = Inr err"
    and "get_prop analyzed ''error'' = Inr err"
    and "startDate_value w \<noteq> []"
    and "get_prop generated ''filename'' = Inr (Some (JStr filename))"
    and "fileInput_files w \<noteq> []"
    and "get_prop analyzed ''statistics'' =
          Inr (Some (JObj [(''total_records'', JNum 100), (''anomaly_count'', JNum 5),
                           (''anomaly_percentage'', JNum 5)]))"
    and "get_prop analyzed ''timestamp'' = Inr (Some (JStr t))"
  shows "if truthy err
         then generationStatus_innerHTML (generateBtn_click eng (Parsed generated) w) =
                danger_banner (message eng (new_Error err))
            \<and> alerts (generateBtn_click eng (Parsed generated) w) = alerts w
            \<and> alerts (uploadForm_submit eng (Parsed analyzed) w) =
                alerts w @ [''Error: '' @ message eng (new_Error err)]
            \<and> totalRecords_textContent (uploadForm_submit eng (Parsed analyzed) w) =
                totalRecords_textContent w
            \<and> ''d-none'' \<in> set (results_classList (uploadForm_submit eng (Parsed analyzed) w))
         else generationStatus_innerHTML (generateBtn_click eng (Parsed generated) w) =
                success_banner filename
            \<and> alerts (generateBtn_click eng (Parsed generated) w) = alerts w
            \<and> totalRecords_textContent (uploadForm_submit eng (Parsed analyzed) w) = ''100''
            \<and> ''d-none'' \<notin> set (results_classList (uploadForm_submit eng (Parsed analyzed) w))"
proof (cases "truthy err")
  case True
  from assms(5) obtain upload fs where files: "fileInput_files w = upload # fs"
    by (cases "fileInput_files w") simp_all
  note thrown = check_error_truthy [OF assms(1) True] check_error_truthy [OF assms(2) True]
  have gen: "generationStatus_innerHTML (generateBtn_click eng (Parsed generated) w) =
                danger_banner (message eng (new_Error err))
            \<and> alerts (generateBtn_click eng (Parsed generated) w) = alerts w"
    using assms(3) thrown(1)
    by (simp add: generateBtn_click_def generate_try_def run_steps_eq fetch_def)
  have ana: "alerts (uploadForm_submit eng (Parsed analyzed) w) =
                alerts w @ [''Error: '' @ message eng (new_Error err)]
            \<and> totalRecords_textContent (uploadForm_submit eng (Parsed analyzed) w) =
                totalRecords_textContent w
            \<and> ''d-none'' \<in> set (results_classList (uploadForm_submit eng (Parsed analyzed) w))"
    using files thrown(2)
    by (simp add: uploadForm_submit_def upload_file_Parsed update_page_def fetch_def
        classList_simps)
  from True gen ana show ?thesis by simp
next
  case False
  from assms(5) obtain upload fs where files: "fileInput_files w = upload # fs"
    by (cases "fileInput_files w") simp_all
  have gen: "generationStatus_innerHTML (generateBtn_click eng (Parsed generated) w) =
           success_banner filename
       \<and> alerts (generateBtn_click eng (Parsed generated) w) = alerts w"
    using assms(1,3,4) False
    by (simp add: generateBtn_click_def generate_try_def run_steps_eq check_error_falsy
        first_throw_assign writes_assign bind_result_def fetch_def)
  note up = update_page_example [OF assms(2) False assms(6,7)]
  note defs = uploadForm_submit_def upload_file_Parsed show_results_def fetch_def
    classList_simps
  have ana: "totalRecords_textContent (uploadForm_submit eng (Parsed analyzed) w) = ''100''
       \<and> ''d-none'' \<notin> set (results_classList (uploadForm_submit eng (Parsed analyzed) w))"
  proof (cases rule: recommendations_block_cases [of eng analyzed])
    case (throws c)
    with files up show ?thesis by (simp add: defs)
  next
    case (shown html)
    with files up show ?thesis by (simp add: defs)
  next
    case hidden
    with files up show ?thesis by (simp add: defs)
  qed
  from False gen ana show ?thesis by simp
qed

text \<open>
  The witness takes the theorem at a present and falsy \<^verbatim>\<open>error\<close>, the empty
  string, and at a truthy one, "bad range", with the rest of the two responses the
  same.
\<close>

theorem handlers_decide_by_truthiness_witness:
  \<open>get_prop (generated0 (JStr '''')) ''error'' = Inr (Some (JStr ''''))
   \<and> get_prop (analyzed0 (JStr '''')) ''error'' = Inr (Some (JStr ''''))
   \<and> \<not> truthy (Some (JStr ''''))
   \<and> truthy (Some (JStr ''bad range''))
   \<and> startDate_value page0 \<noteq> []
   \<and> fileInput_files page0 \<noteq> []
   \<and> generationStatus_innerHTML
         (generateBtn_click sample_engine (Parsed (generated0 (JStr ''''))) page0) =
       ''\<newline>            <div class="alert alert-success">\<newline>                Sample data generated successfully!\<newline>                <a href="/download_sample/sample.csv" class="btn btn-sm btn-primary ms-2">Download</a>\<newline>            </div>\<newline>        ''
   \<and> alerts (generateBtn_click sample_engine (Parsed (generated0 (JStr ''''))) page0) = []
   \<and> totalRecords_textContent
         (uploadForm_submit sample_engine (Parsed (analyzed0 (JStr ''''))) page0) = ''100''
   \<and> ''d-none'' \<notin> set (results_classList
         (uploadForm_submit sample_engine (Parsed (analyzed0 (JStr ''''))) page0))
   \<and> generationStatus_innerHTML
         (generateBtn_click sample_engine (Parsed (generated0 (JStr ''bad range''))) page0) =
       ''\<newline>            <div class="alert alert-danger">\<newline>                Error generating sample data: bad range\<newline>            </div>\<newline>        ''
   \<and> alerts (uploadForm_submit sample_engine (Parsed (analyzed0 (JStr ''bad range''))) page0) =
       [''Error: bad range'']
   \<and> totalRecords_textContent
         (uploadForm_submit sample_engine (Parsed (analyzed0 (JStr ''bad range''))) page0) = []
   \<and> ''d-none'' \<in> set (results_classList
         (uploadForm_submit sample_engine (Parsed (analyzed0 (JStr ''bad range''))) page0))\<close>
proof -
  have start: "startDate_value page0 \<noteq> []" and files: "fileInput_files page0 \<noteq> []"
    by (simp_all add: page0_def)
  have fields:
    "get_prop (generated0 v) ''error'' = Inr (Some v)"
    "get_prop (analyzed0 v) ''error'' = Inr (Some v)"
    "get_prop (generated0 v) ''filename'' = Inr (Some (JStr ''sample.csv''))"
    "get_prop (analyzed0 v) ''statistics'' =
       Inr (Some (JObj [(''total_records'', JNum 100), (''anomaly_count'', JNum 5),
                        (''anomaly_percentage'', JNum 5)]))"
    "get_prop (analyzed0 v) ''timestamp'' = Inr (Some (JStr ''t1''))" for v
    by (simp_all add: generated0_def analyzed0_def stats0_def)
  note at = handlers_decide_by_truthiness
    [OF fields(1) fields(2) start fields(3) files fields(4) fields(5), of _ sample_engine]
  from at [of "JStr ''''"] at [of "JStr ''bad range''"] fields(1,2) start files
  show ?thesis
    by (simp add: success_banner_def danger_banner_def message_def new_Error_def page0_def)
qed


end
